theory Spec2Isabelle
  imports Complex_Main "HOL-Library.AList"
begin

section \<open>Python values shared by the agents\<close>

text \<open>
  The agents exchange Python dictionaries. A dictionary with a fixed set of keys is a
  record; a key that a reader fetches with \<^verbatim>\<open>d.get(key, default)\<close> is an
  \<open>option\<close> field (\<open>None\<close>: the key is absent), and \<open>dict_get\<close> is that lookup.
  A key that a reader fetches with \<^verbatim>\<open>d[key]\<close> raises \<open>KeyError\<close> when absent.
\<close>

datatype py_error = KeyError | TypeError | AttributeError | ValueError

definition dict_get :: "'a option \<Rightarrow> 'a \<Rightarrow> 'a" where
  "dict_get v d = (case v of None \<Rightarrow> d | Some x \<Rightarrow> x)"

definition dict_index :: "'a option \<Rightarrow> py_error + 'a" where
  "dict_index v = (case v of None \<Rightarrow> Inl KeyError | Some x \<Rightarrow> Inr x)"

text \<open>Truthiness of a list or dictionary fetched with \<^verbatim>\<open>d.get(key)\<close>: absent or empty is false.\<close>

definition truthy :: "'a list option \<Rightarrow> bool" where
  "truthy v = (case v of None \<Rightarrow> False | Some xs \<Rightarrow> xs \<noteq> [])"

section \<open>Text\<close>

text \<open>
  A text is a \<open>string\<close>, one \<open>char\<close> per character; the model covers ASCII texts
  (the rupee sign of the source's patterns is written as its three UTF-8 bytes, so no ASCII
  text matches it). \<open>lower\<close> is \<^verbatim>\<open>str.lower()\<close>, \<open>in_str a b\<close> is Python's
  \<^verbatim>\<open>a in b\<close> on strings, \<open>is_space\<close> is the class \<^verbatim>\<open>\s\<close> and
  \<open>is_digit\<close> the class \<^verbatim>\<open>\d\<close> (and \<^verbatim>\<open>[0-9]\<close>) on ASCII.
\<close>

definition lower_char :: "char \<Rightarrow> char" where
  "lower_char c =
     (let n = (of_char c :: nat) in if 65 \<le> n \<and> n \<le> 90 then char_of (n + 32) else c)"

definition lower :: "string \<Rightarrow> string" where
  "lower s = map lower_char s"

definition is_digit :: "char \<Rightarrow> bool" where
  "is_digit c = (let n = (of_char c :: nat) in 48 \<le> n \<and> n \<le> 57)"

definition is_space :: "char \<Rightarrow> bool" where
  "is_space c = (let n = (of_char c :: nat) in (9 \<le> n \<and> n \<le> 13) \<or> (28 \<le> n \<and> n \<le> 32))"

fun starts_with :: "string \<Rightarrow> string \<Rightarrow> bool" where
  "starts_with [] s = True"
| "starts_with (p # ps) [] = False"
| "starts_with (p # ps) (c # cs) = (p = c \<and> starts_with ps cs)"

fun in_str :: "string \<Rightarrow> string \<Rightarrow> bool" where
  "in_str needle [] = (needle = [])"
| "in_str needle (c # cs) = (starts_with needle (c # cs) \<or> in_str needle cs)"

text \<open>The value of a run of decimal digits, as \<^verbatim>\<open>int()\<close> reads it.\<close>

definition digit_val :: "char \<Rightarrow> int" where
  "digit_val c = int (of_char c) - 48"

definition int_of_digits :: "string \<Rightarrow> int" where
  "int_of_digits ds = foldl (\<lambda>acc c. 10 * acc + digit_val c) 0 ds"

section \<open>Data model\<close>

record fee =
  fee_amount :: int
  fee_context :: string
  fee_type :: string

record salary =
  sal_mentioned :: "bool option"
  sal_amount :: "int option"
  sal_currency :: "string option"
  sal_period :: "string option"

record extraction =
  company_name :: "string option"
  ex_salary :: "salary option"
  ex_fees :: "fee list option"
  ex_red_flags :: "string list option"
  ex_behaviors :: "string list option"

record company_verification =
  cv_found :: "bool option"
  online_presence :: "string option"
  cv_sources :: "string list option"

record email_verification =
  domain_matches :: "string list option"
  suspicious_domains :: "string list option"
  personal_emails :: "string list option"
  professional_emails :: "string list option"

record salary_verification =
  realistic :: "string option"
  monthly_equivalent :: "rat option"
  assessment :: "string option"

record scam_reports =
  sr_found :: "bool option"

record domain_analysis =
  da_trusted :: "string list option"
  da_suspicious :: "string list option"

record research =
  rs_company_verification :: "company_verification option"
  rs_email_verification :: "email_verification option"
  rs_salary_verification :: "salary_verification option"
  rs_scam_reports :: "scam_reports option"
  rs_domain_analysis :: "domain_analysis option"
  trust_assessment :: "string option"

record pattern_out =
  scam_matches :: "(string \<times> string list) list option"
  positive_matches :: "(string \<times> string list) list option"

record interview_analysis =
  ia_matches :: "string list"
  ia_risk :: string

record salary_assessment_d =
  as_salary :: "int option"
  as_risk :: "string option"
  as_reasons :: "string list option"

record salary_out =
  so_salary_assessment :: "salary_assessment_d option"
  so_interview_analysis :: "interview_analysis option"
  combined_risk :: "string option"

record decision_payload =
  pl_extraction :: "extraction option"
  pl_research :: "research option"
  pl_pattern_out :: "pattern_out option"
  pl_salary_out :: "salary_out option"

record decision_data =
  dd_result :: string
  dd_red_flags :: "string list"
  dd_trust_level :: string
  internal_risk_score :: int

text \<open>The empty dictionary \<^verbatim>\<open>{}\<close> at each of these types: every key absent.\<close>

definition empty_extraction :: extraction where
  "empty_extraction = \<lparr>company_name = None, ex_salary = None, ex_fees = None,
     ex_red_flags = None, ex_behaviors = None\<rparr>"

definition empty_company_verification :: company_verification where
  "empty_company_verification = \<lparr>cv_found = None, online_presence = None, cv_sources = None\<rparr>"

definition empty_email_verification :: email_verification where
  "empty_email_verification = \<lparr>domain_matches = None, suspicious_domains = None,
     personal_emails = None, professional_emails = None\<rparr>"

definition empty_salary_verification :: salary_verification where
  "empty_salary_verification = \<lparr>realistic = None, monthly_equivalent = None, assessment = None\<rparr>"

definition empty_scam_reports :: scam_reports where
  "empty_scam_reports = \<lparr>sr_found = None\<rparr>"

definition empty_domain_analysis :: domain_analysis where
  "empty_domain_analysis = \<lparr>da_trusted = None, da_suspicious = None\<rparr>"

definition empty_research :: research where
  "empty_research = \<lparr>rs_company_verification = None, rs_email_verification = None,
     rs_salary_verification = None, rs_scam_reports = None, rs_domain_analysis = None,
     trust_assessment = None\<rparr>"

definition empty_pattern_out :: pattern_out where
  "empty_pattern_out = \<lparr>scam_matches = None, positive_matches = None\<rparr>"

definition empty_salary_out :: salary_out where
  "empty_salary_out = \<lparr>so_salary_assessment = None, so_interview_analysis = None,
     combined_risk = None\<rparr>"

definition empty_payload :: decision_payload where
  "empty_payload = \<lparr>pl_extraction = None, pl_research = None, pl_pattern_out = None,
     pl_salary_out = None\<rparr>"

section \<open>Decision Aggregator (backend/agents/decision\_agent.py)\<close>

text \<open>
  \<open>DecisionAgent.handle\<close>. Lines 24 to 50 read the signals from the payload; each
  reader below is one of those assignments.
\<close>

definition in_extraction :: "decision_payload \<Rightarrow> extraction" where
  "in_extraction payload = dict_get (pl_extraction payload) empty_extraction"

definition in_research :: "decision_payload \<Rightarrow> research" where
  "in_research payload = dict_get (pl_research payload) empty_research"

definition in_pattern_out :: "decision_payload \<Rightarrow> pattern_out" where
  "in_pattern_out payload = dict_get (pl_pattern_out payload) empty_pattern_out"

definition in_salary_out :: "decision_payload \<Rightarrow> salary_out" where
  "in_salary_out payload = dict_get (pl_salary_out payload) empty_salary_out"

definition in_red_flags :: "decision_payload \<Rightarrow> string list" where
  "in_red_flags payload = dict_get (ex_red_flags (in_extraction payload)) []"

definition in_fees_mentioned :: "decision_payload \<Rightarrow> bool" where
  "in_fees_mentioned payload = (length (dict_get (ex_fees (in_extraction payload)) []) > 0)"

definition in_behaviors :: "decision_payload \<Rightarrow> string list" where
  "in_behaviors payload = dict_get (ex_behaviors (in_extraction payload)) []"

definition in_trust_level :: "decision_payload \<Rightarrow> string" where
  "in_trust_level payload = dict_get (trust_assessment (in_research payload)) ''unknown''"

definition in_scam_reports :: "decision_payload \<Rightarrow> bool" where
  "in_scam_reports payload =
     dict_get (sr_found (dict_get (rs_scam_reports (in_research payload)) empty_scam_reports)) False"

definition in_email_verification :: "decision_payload \<Rightarrow> email_verification" where
  "in_email_verification payload =
     dict_get (rs_email_verification (in_research payload)) empty_email_verification"

definition in_has_scam_patterns :: "decision_payload \<Rightarrow> bool" where
  "in_has_scam_patterns payload = truthy (scam_matches (in_pattern_out payload))"

definition in_has_positive_patterns :: "decision_payload \<Rightarrow> bool" where
  "in_has_positive_patterns payload = truthy (positive_matches (in_pattern_out payload))"

definition in_salary_risk :: "decision_payload \<Rightarrow> string" where
  "in_salary_risk payload = dict_get (combined_risk (in_salary_out payload)) ''LOW''"

text \<open>
  Lines 52 to 92: the risk score, accumulated in source order, and the category. The
  response (lines 177 to 194) carries them with the red flags and the trust level; the
  explanation text of lines 94 to 174 is built from the same signals, does not feed back
  into the score or the category, and is left out of the response modelled here.
\<close>

definition risk_score_of :: "decision_payload \<Rightarrow> int" where
  "risk_score_of payload =
     (let risk_score = 0;
          risk_score = risk_score + int (length (in_red_flags payload)) * 2;
          risk_score = risk_score + (if in_fees_mentioned payload then 5 else 0);
          risk_score = risk_score + int (length (in_behaviors payload));
          risk_score =
            (if in_trust_level payload = ''high_risk'' then risk_score + 10
             else if in_trust_level payload = ''low_trust'' then risk_score + 5
             else if in_trust_level payload = ''high_trust'' then risk_score - 5
             else risk_score);
          risk_score = (if in_scam_reports payload then risk_score + 8 else risk_score);
          risk_score =
            (if truthy (personal_emails (in_email_verification payload)) then risk_score + 3
             else risk_score);
          risk_score = (if in_has_scam_patterns payload then risk_score + 5 else risk_score);
          risk_score = (if in_has_positive_patterns payload then risk_score - 3 else risk_score);
          risk_score =
            (if in_salary_risk payload = ''HIGH'' then risk_score + 4
             else if in_salary_risk payload = ''MEDIUM'' then risk_score + 2
             else risk_score)
      in risk_score)"

definition category_of :: "int \<Rightarrow> string" where
  "category_of risk_score =
     (if risk_score \<ge> 10 then ''Contains Warning Signs''
      else if risk_score \<le> 2 then ''Looks Safe''
      else ''Needs Verification'')"

definition decision_handle :: "decision_payload \<Rightarrow> string \<times> decision_data" where
  "decision_handle payload =
     (let risk_score = risk_score_of payload;
          category = category_of risk_score
      in (''ok'', \<lparr>dd_result = category, dd_red_flags = in_red_flags payload,
            dd_trust_level = in_trust_level payload, internal_risk_score = risk_score\<rparr>))"

section \<open>Reputation Resolver (backend/agents/research\_agent.py)\<close>

definition bind_err :: "py_error + 'a \<Rightarrow> ('a \<Rightarrow> py_error + 'b) \<Rightarrow> py_error + 'b" where
  "bind_err m f = (case m of Inl e \<Rightarrow> Inl e | Inr x \<Rightarrow> f x)"


text \<open>
  \<open>_assess_trust\<close> (lines 273 to 321). \<open>trust_score\<close> is the accumulation of lines
  275 to 311, \<open>trust_level_of\<close> the mapping of lines 314 to 321. The keys read with
  \<^verbatim>\<open>research[...]\<close> raise \<open>KeyError\<close> when absent.
\<close>

definition trust_score :: "research \<Rightarrow> py_error + int" where
  "trust_score research =
     bind_err (dict_index (rs_company_verification research)) (\<lambda>cv.
     let company_presence = dict_get (online_presence cv) ''none'';
         score = 0;
         score = (if company_presence = ''strong'' then score + 3
                  else if company_presence = ''moderate'' then score + 1
                  else if company_presence = ''weak'' then score - 1
                  else score)
     in
     bind_err (dict_index (rs_email_verification research)) (\<lambda>email_ver.
     bind_err (dict_index (professional_emails email_ver)) (\<lambda>professional.
     let score = (if professional \<noteq> [] then score + 2 else score) in
     bind_err (dict_index (personal_emails email_ver)) (\<lambda>personal.
     let score = (if personal \<noteq> [] then score - 1 else score) in
     bind_err (dict_index (domain_matches email_ver)) (\<lambda>matches.
     let score = (if matches \<noteq> [] then score + 2 else score) in
     bind_err (dict_index (rs_scam_reports research)) (\<lambda>reports.
     bind_err (dict_index (sr_found reports)) (\<lambda>found.
     let score = (if found then score - 5 else score) in
     bind_err (dict_index (rs_domain_analysis research)) (\<lambda>domain_analysis.
     bind_err (dict_index (da_trusted domain_analysis)) (\<lambda>trusted.
     let score = (if trusted \<noteq> [] then score + 3 else score) in
     bind_err (dict_index (da_suspicious domain_analysis)) (\<lambda>suspicious.
     let score = (if suspicious \<noteq> [] then score - 2 else score) in
     bind_err (dict_index (rs_salary_verification research)) (\<lambda>sv.
     let salary_check = dict_get (realistic sv) ''unknown'';
         score = (if salary_check = ''realistic'' then score + 1
                  else if salary_check \<in> set [''suspiciously_low'', ''suspiciously_high'']
                  then score - 2
                  else score)
     in Inr score)))))))))))"

definition trust_level_of :: "int \<Rightarrow> string" where
  "trust_level_of score =
     (if score \<ge> 5 then ''high_trust''
      else if score \<ge> 2 then ''moderate_trust''
      else if score \<ge> 0 then ''low_trust''
      else ''high_risk'')"

definition assess_trust :: "research \<Rightarrow> py_error + string" where
  "assess_trust research = bind_err (trust_score research) (\<lambda>score. Inr (trust_level_of score))"

section \<open>Salary Plausibility Checker (s\_safe/tools/salary\_tool.py, s\_safe/agents/salary\_agent.py)\<close>

record salary_assessment =
  sa_risk :: string
  sa_reasons :: "string list"

text \<open>\<open>assess_salary\<close> (salary\_tool.py, lines 26 to 45).\<close>

definition assess_salary :: "int \<Rightarrow> salary_assessment" where
  "assess_salary v =
     (if v < 300 then
        \<lparr>sa_risk = ''HIGH'',
         sa_reasons = [''Very low salary value (possible bait or per-day/per-hour confusion)'']\<rparr>
      else if v < 1000 then
        \<lparr>sa_risk = ''MEDIUM'', sa_reasons = [''Low salary compared to typical living wages'']\<rparr>
      else if v > 200000 then
        \<lparr>sa_risk = ''HIGH'', sa_reasons = [''Unrealistically high salary claim'']\<rparr>
      else \<lparr>sa_risk = ''SAFE'', sa_reasons = []\<rparr>)"

text \<open>
  \<open>extract_salary\<close> (salary\_tool.py, lines 9 to 23): the first match of
  \<^verbatim>\<open>\$?\s?([0-9]{2,6}(?:[,\.][0-9]{3})?)(?:\s?(k|K))?\<close>. Group 1 of the leftmost match
  starts at the first place where two digits follow each other (a match that starts on a
  dollar sign or a space before it captures the same group); it takes up to six digits,
  then a comma or point followed by three digits when they are there; every later part of
  the pattern is optional, so the greedy choice is never undone. The result is \<open>None\<close>
  for \<^verbatim>\<open>{"found": False}\<close> and \<open>Some value\<close> otherwise.
\<close>

fun first_digit_pair :: "string \<Rightarrow> string option" where
  "first_digit_pair (a # b # cs) =
     (if is_digit a \<and> is_digit b then Some (a # b # cs) else first_digit_pair (b # cs))"
| "first_digit_pair cs = None"

definition group_tail :: "string \<Rightarrow> string" where
  "group_tail r =
     (case r of
        sep # a # b # c # r' \<Rightarrow>
          if (sep = CHR '','' \<or> sep = CHR ''.'') \<and> is_digit a \<and> is_digit b \<and> is_digit c
          then [sep, a, b, c] else []
      | _ \<Rightarrow> [])"

definition k_suffix :: "string \<Rightarrow> string" where
  "k_suffix r =
     (case r of
        [] \<Rightarrow> []
      | a # r' \<Rightarrow>
          if a = CHR ''k'' \<or> a = CHR ''K'' then [a]
          else if is_space a then
            (case r' of [] \<Rightarrow> [] | b # r'' \<Rightarrow> if b = CHR ''k'' \<or> b = CHR ''K'' then [b] else [])
          else [])"

definition extract_salary :: "string \<Rightarrow> int option" where
  "extract_salary text =
     (case first_digit_pair text of
        None \<Rightarrow> None
      | Some s \<Rightarrow>
          let digits = take 6 (takeWhile is_digit s);
              r = drop (length digits) s;
              value_str = digits @ group_tail r;
              suffix = k_suffix (drop (length value_str) s);
              no_commas = filter (\<lambda>c. c \<noteq> CHR '','') value_str;
              v = int_of_digits (takeWhile (\<lambda>c. c \<noteq> CHR ''.'') no_commas);
              v = (if suffix \<noteq> [] \<and> lower suffix = ''k'' then v * 1000 else v)
          in Some v)"

text \<open>
  \<open>analyze_interview\<close> (interview\_tool.py). Each phrase is searched with
  \<^verbatim>\<open>re.search(patt, text, re.I)\<close>; a phrase is either a literal or
  \<^verbatim>\<open>a.*b\<close>, where \<^verbatim>\<open>.*\<close> stays on one line.
\<close>

datatype phrase = Literal string | DotStar string string

fun pattern_text :: "phrase \<Rightarrow> string" where
  "pattern_text (Literal a) = a"
| "pattern_text (DotStar a b) = a @ ''.*'' @ b"

definition SUSPICIOUS_PHRASES :: "phrase list" where
  "SUSPICIOUS_PHRASES =
     [DotStar ''pay'' ''interview'',
      Literal ''registration fee'',
      DotStar ''certificate'' ''payment'',
      Literal ''no formal interview'',
      Literal ''quick interview'',
      DotStar ''send'' ''money'',
      Literal ''whatsapp'',
      Literal ''personal bank'']"

fun dotstar_search :: "string \<Rightarrow> string \<Rightarrow> string \<Rightarrow> bool" where
  "dotstar_search a b [] = (a = [] \<and> b = [])"
| "dotstar_search a b (c # cs) =
     ((starts_with a (c # cs)
         \<and> in_str b (takeWhile (\<lambda>x. x \<noteq> CHR 0x0A) (drop (length a) (c # cs))))
      \<or> dotstar_search a b cs)"

fun re_search_i :: "phrase \<Rightarrow> string \<Rightarrow> bool" where
  "re_search_i (Literal a) text = in_str a (lower text)"
| "re_search_i (DotStar a b) text = dotstar_search a b (lower text)"

definition analyze_interview :: "string \<Rightarrow> interview_analysis" where
  "analyze_interview text =
     (let matches = map pattern_text (filter (\<lambda>patt. re_search_i patt text) SUSPICIOUS_PHRASES);
          risk =
            (if matches \<noteq> [] then
               (if list_ex (\<lambda>m. in_str ''pay'' m \<or> in_str ''registration'' m) matches
                then ''HIGH'' else ''MEDIUM'')
             else ''SAFE'')
      in \<lparr>ia_matches = matches, ia_risk = risk\<rparr>)"

text \<open>
  \<open>SalaryInterviewAgent.handle\<close> (s\_safe/agents/salary\_agent.py, lines 21 to 35), the
  salary agent whose source is at hand; its answer is the \<open>salary_out\<close> the Decision
  Aggregator reads.
\<close>

definition salary_handle :: "string \<Rightarrow> string \<times> salary_out" where
  "salary_handle text =
     (let salary_info = extract_salary text;
          assessment =
            (case salary_info of
               None \<Rightarrow> \<lparr>as_salary = salary_info, as_risk = None, as_reasons = None\<rparr>
             | Some v \<Rightarrow>
                 \<lparr>as_salary = salary_info, as_risk = Some (sa_risk (assess_salary v)),
                  as_reasons = Some (sa_reasons (assess_salary v))\<rparr>);
          interview = analyze_interview text;
          combined =
            (if ia_risk interview = ''HIGH'' \<or> as_risk assessment = Some ''HIGH'' then ''HIGH''
             else if ia_risk interview = ''MEDIUM'' \<or> as_risk assessment = Some ''MEDIUM''
             then ''MEDIUM''
             else ''SAFE'')
      in (''ok'', \<lparr>so_salary_assessment = Some assessment,
                   so_interview_analysis = Some interview,
                   combined_risk = Some combined\<rparr>))"

section \<open>Knowledge Base Store (backend/toon/toon\_manager.py)\<close>

text \<open>
  A knowledge base document is a JSON file. \<open>json\<close> is what \<^verbatim>\<open>json.load\<close> returns
  (an object is the list of its members in file order); a \<open>kb_file\<close> is absent, unreadable
  as JSON, or holds a document.
\<close>

datatype json =
    JNull
  | JBool bool
  | JNum rat
  | JStr string
  | JList "json list"
  | JDict "(string \<times> json) list"

datatype kb_file = Absent | Corrupt | Document json

record kb_fs =
  scam_file :: kb_file
  positive_file :: kb_file





section \<open>Knowledge Learner (backend/agents/toon\_learning\_agent.py)\<close>

record learner_load =
  ll_status :: string
  ll_scam_patterns :: json
  ll_positive_patterns :: json

record proposal =
  new_scam_keywords :: "string list option"
  new_scam_domains :: "string list option"
  new_scam_behaviors :: "string list option"
  new_safe_keywords :: "string list option"
  new_safe_domains :: "string list option"
  confidence :: "rat option"
  should_apply :: "bool option"

text \<open>
  \<open>TOONLearningAgent._load_toon\<close> (lines 51 to 78): both files are read as they are;
  when either read raises, the answer has status "error" and two empty documents.
\<close>

definition learner_load_toon :: "kb_fs \<Rightarrow> learner_load" where
  "learner_load_toon fs =
     (case scam_file fs of
        Document scam_patterns \<Rightarrow>
          (case positive_file fs of
             Document positive_patterns \<Rightarrow>
               \<lparr>ll_status = ''success'', ll_scam_patterns = scam_patterns,
                ll_positive_patterns = positive_patterns\<rparr>
           | _ \<Rightarrow> \<lparr>ll_status = ''error'', ll_scam_patterns = JDict [],
                   ll_positive_patterns = JDict []\<rparr>)
      | _ \<Rightarrow> \<lparr>ll_status = ''error'', ll_scam_patterns = JDict [],
              ll_positive_patterns = JDict []\<rparr>)"










text \<open>
  The helpers of \<open>_propose_update\<close> (lines 119 to 222). The confidence is a sum of the decimal constants 0.3, 0.15, 0.4, 0.05, 0.2; it is modelled
  with exact rationals. On every input the comparison with the threshold 0.7 has the same
  outcome as in Python's binary floating point (there are finitely many sums; the count of
  sources matters only up to four). \<open>_calculate_confidence\<close> takes the proposals and
  does not read them.
\<close>

record propose_payload =
  pp_extraction :: "extraction option"
  pp_research :: "research option"

definition is_likely_scam :: "extraction \<Rightarrow> research \<Rightarrow> bool" where
  "is_likely_scam extraction research =
     (let has_fees = (length (dict_get (ex_fees extraction) []) > 0);
          has_red_flags = (length (dict_get (ex_red_flags extraction) []) > 2);
          scam_reports_found =
            dict_get (sr_found (dict_get (rs_scam_reports research) empty_scam_reports)) False;
          trust_level = dict_get (trust_assessment research) ''unknown''
      in (has_fees \<and> has_red_flags) \<or> scam_reports_found \<or> trust_level = ''high_risk'')"

definition is_likely_safe :: "research \<Rightarrow> bool" where
  "is_likely_safe research =
     (let trust_level = dict_get (trust_assessment research) ''unknown'';
          company_presence =
            dict_get (online_presence
              (dict_get (rs_company_verification research) empty_company_verification)) ''none''
      in trust_level \<in> set [''high_trust'', ''moderate_trust''] \<and> company_presence = ''strong'')"

text \<open>
  \<^verbatim>\<open>set(scam_patterns.get("suspicious_keywords", []))\<close>: \<open>py_set_strings v\<close> lists the
  strings in \<^verbatim>\<open>set(v)\<close>. A list with a list or an object among its elements is not
  hashable; a string gives its characters, an object its keys; nothing else is iterable.
\<close>

fun unhashable :: "json \<Rightarrow> bool" where
  "unhashable (JList xs) = True"
| "unhashable (JDict kv) = True"
| "unhashable v = False"

fun string_members :: "json list \<Rightarrow> string list" where
  "string_members [] = []"
| "string_members (JStr s # xs) = s # string_members xs"
| "string_members (x # xs) = string_members xs"

fun py_set_strings :: "json \<Rightarrow> py_error + string list" where
  "py_set_strings (JList xs) = (if list_ex unhashable xs then Inl TypeError else Inr (string_members xs))"
| "py_set_strings (JStr s) = Inr (map (\<lambda>c. [c]) s)"
| "py_set_strings (JDict kv) = Inr (map fst kv)"
| "py_set_strings v = Inl TypeError"

definition current_keywords :: "json \<Rightarrow> py_error + string list" where
  "current_keywords scam_patterns =
     (case scam_patterns of
        JDict kv \<Rightarrow>
          (case map_of kv ''suspicious_keywords'' of
             None \<Rightarrow> Inr []
           | Some v \<Rightarrow> py_set_strings v)
      | _ \<Rightarrow> Inl AttributeError)"

definition extract_scam_patterns ::
    "kb_fs \<Rightarrow> extraction \<Rightarrow> research \<Rightarrow> py_error + (string list \<times> string list \<times> string list)" where
  "extract_scam_patterns fs extraction research =
     bind_err (current_keywords (ll_scam_patterns (learner_load_toon fs))) (\<lambda>current.
       let keywords = filter (\<lambda>flag. flag \<notin> set current) (dict_get (ex_red_flags extraction) []);
           email_ver = dict_get (rs_email_verification research) empty_email_verification;
           domains = dict_get (suspicious_domains email_ver) [];
           behaviors = dict_get (ex_behaviors extraction) []
       in Inr (keywords, domains, behaviors))"

text \<open>\<^verbatim>\<open>email.split('@')[1]\<close>, read only when the address holds an at sign.\<close>

definition after_at :: "string \<Rightarrow> string" where
  "after_at email =
     takeWhile (\<lambda>c. c \<noteq> CHR ''@'') (drop 1 (dropWhile (\<lambda>c. c \<noteq> CHR ''@'') email))"

definition extract_safe_patterns :: "extraction \<Rightarrow> research \<Rightarrow> string list \<times> string list" where
  "extract_safe_patterns extraction research =
     (let email_ver = dict_get (rs_email_verification research) empty_email_verification;
          from_emails =
            map after_at (filter (\<lambda>email. CHR ''@'' \<in> set email)
              (dict_get (professional_emails email_ver) []));
          domain_analysis = dict_get (rs_domain_analysis research) empty_domain_analysis;
          trusted = dict_get (da_trusted domain_analysis) []
      in ([], from_emails @ trusted))"

definition calculate_confidence :: "proposal \<Rightarrow> research \<Rightarrow> rat" where
  "calculate_confidence proposals research =
     (let company_verification =
            dict_get (rs_company_verification research) empty_company_verification;
          company_presence = dict_get (online_presence company_verification) ''none'';
          score = 0;
          score = (if company_presence = ''strong'' then score + 3 / 10
                   else if company_presence = ''moderate'' then score + 15 / 100
                   else score);
          score =
            (if dict_get (sr_found (dict_get (rs_scam_reports research) empty_scam_reports)) False
             then score + 4 / 10 else score);
          sources_count = length (dict_get (cv_sources company_verification) []);
          score = score + min (of_nat sources_count * (5 / 100)) (2 / 10);
          trust = dict_get (trust_assessment research) ''unknown'';
          score = (if trust = ''high_trust'' then score + 2 / 10
                   else if trust = ''high_risk'' then score + 3 / 10
                   else score)
      in min score 1)"

definition has_sufficient_evidence :: "proposal \<Rightarrow> bool" where
  "has_sufficient_evidence proposals =
     (length (dict_get (new_scam_keywords proposals) []) > 0
      \<or> length (dict_get (new_scam_domains proposals) []) > 0
      \<or> length (dict_get (new_safe_keywords proposals) []) > 0
      \<or> length (dict_get (new_safe_domains proposals) []) > 0)"

definition CONFIDENCE_THRESHOLD :: rat where
  "CONFIDENCE_THRESHOLD = 7 / 10"

text \<open>
  \<open>_propose_update\<close> in two steps: \<open>proposal_candidates\<close> is lines 85 to 101 (the
  empty proposal and the candidates filled in for a likely scam or a likely safe case),
  \<open>propose_update\<close> adds the confidence and the decision of lines 103 to 110.
\<close>

definition proposal_candidates :: "kb_fs \<Rightarrow> extraction \<Rightarrow> research \<Rightarrow> py_error + proposal" where
  "proposal_candidates fs extraction research =
     (let proposals = \<lparr>new_scam_keywords = Some [], new_scam_domains = Some [],
             new_scam_behaviors = Some [], new_safe_keywords = Some [],
             new_safe_domains = Some [], confidence = Some 0, should_apply = Some False\<rparr>
      in if is_likely_scam extraction research then
           bind_err (extract_scam_patterns fs extraction research) (\<lambda>(keywords, domains, behaviors).
             Inr (proposals\<lparr>new_scam_keywords := Some keywords,
                    new_scam_domains := Some domains, new_scam_behaviors := Some behaviors\<rparr>))
         else if is_likely_safe research then
           (case extract_safe_patterns extraction research of
              (keywords, domains) \<Rightarrow>
                Inr (proposals\<lparr>new_safe_keywords := Some keywords,
                       new_safe_domains := Some domains\<rparr>))
         else Inr proposals)"

definition propose_update :: "kb_fs \<Rightarrow> propose_payload \<Rightarrow> py_error + proposal" where
  "propose_update fs payload =
     (let extraction = dict_get (pp_extraction payload) empty_extraction;
          research = dict_get (pp_research payload) empty_research
      in bind_err (proposal_candidates fs extraction research) (\<lambda>proposals.
           let c = calculate_confidence proposals research;
               proposals = proposals\<lparr>confidence := Some c\<rparr>
           in Inr (proposals\<lparr>should_apply :=
                     Some (c \<ge> CONFIDENCE_THRESHOLD \<and> has_sufficient_evidence proposals)\<rparr>)))"

section \<open>Text Extractor (backend/agents/extraction\_agent.py)\<close>

text \<open>
  The patterns are matched with \<^verbatim>\<open>re.IGNORECASE\<close>: a literal of a pattern, written
  in lower case, is compared with the lower-cased text. \<open>lit_i l s\<close> matches the literal
  at the head of \<open>s\<close> and returns the rest; \<open>first_of\<close> is an alternation of literals,
  tried from left to right.
\<close>

definition rupee :: string where
  "rupee = [CHR 0xE2, CHR 0x82, CHR 0xB9]"

definition starts_with_i :: "string \<Rightarrow> string \<Rightarrow> bool" where
  "starts_with_i l s = starts_with l (lower (take (length l) s))"

definition lit_i :: "string \<Rightarrow> string \<Rightarrow> string option" where
  "lit_i l s = (if starts_with_i l s then Some (drop (length l) s) else None)"

fun first_of :: "string list \<Rightarrow> string \<Rightarrow> string option" where
  "first_of [] s = None"
| "first_of (l # ls) s = (case lit_i l s of Some r \<Rightarrow> Some r | None \<Rightarrow> first_of ls s)"

text \<open>
  The currency alternation: the rupee sign, \<^verbatim>\<open>Rs\.?\<close>, \<^verbatim>\<open>INR\<close>, \<^verbatim>\<open>USD\<close> (in the
  salary pattern only) and the dollar sign. The alternatives begin with different
  characters, and what follows is white space or a digit, so the greedy choice is the
  only one that can succeed.
\<close>

definition currency_mark :: "bool \<Rightarrow> string \<Rightarrow> string option" where
  "currency_mark with_usd s =
     (case lit_i rupee s of
        Some r \<Rightarrow> Some r
      | None \<Rightarrow>
     (case lit_i ''rs'' s of
        Some r \<Rightarrow> Some (case r of [] \<Rightarrow> r | c # r' \<Rightarrow> if c = CHR ''.'' then r' else r)
      | None \<Rightarrow>
     (case lit_i ''inr'' s of
        Some r \<Rightarrow> Some r
      | None \<Rightarrow>
     (case (if with_usd then lit_i ''usd'' s else None) of
        Some r \<Rightarrow> Some r
      | None \<Rightarrow> lit_i ''$'' s))))"

text \<open>
  \<^verbatim>\<open>\d+(?:,\d{3})*\<close> at the head of a string (empty when there is no digit), and the
  optional \<^verbatim>\<open>(?:\.\d{2})?\<close> of the salary pattern.
\<close>

fun comma_groups :: "string \<Rightarrow> string" where
  "comma_groups (s # a # b # c # r) =
     (if s = CHR '','' \<and> is_digit a \<and> is_digit b \<and> is_digit c
      then s # a # b # c # comma_groups r else [])"
| "comma_groups r = []"

definition number_group :: "string \<Rightarrow> string" where
  "number_group s =
     (let d = takeWhile is_digit s in if d = [] then [] else d @ comma_groups (drop (length d) s))"

definition decimals :: "string \<Rightarrow> string" where
  "decimals r =
     (case r of
        p # a # b # r' \<Rightarrow> if p = CHR ''.'' \<and> is_digit a \<and> is_digit b then [p, a, b] else []
      | _ \<Rightarrow> [])"

text \<open>
  A match of a pattern at the head of a string: group 1 and the length of the match.
  \<open>fee_match\<close> is \<open>fee_pattern\<close> (line 26), \<open>salary_match\<close> is \<open>salary_pattern\<close>
  (line 25).
\<close>

definition fee_match :: "string \<Rightarrow> (string \<times> nat) option" where
  "fee_match s =
     (case first_of [''fee'', ''deposit'', ''payment'', ''charge'', ''cost''] s of
        None \<Rightarrow> None
      | Some r1 \<Rightarrow>
          let r2 = dropWhile is_space r1;
              r3 = (case first_of [''of'', '':''] r2 of Some r \<Rightarrow> r | None \<Rightarrow> r2);
              r4 = dropWhile is_space r3;
              r5 = (case currency_mark False r4 of Some r \<Rightarrow> r | None \<Rightarrow> r4);
              r6 = dropWhile is_space r5;
              g = number_group r6
          in if g = [] then None else Some (g, length s - length r6 + length g))"

definition salary_match :: "string \<Rightarrow> (string \<times> nat) option" where
  "salary_match s =
     (case currency_mark True s of
        None \<Rightarrow> None
      | Some r1 \<Rightarrow>
          let r2 = dropWhile is_space r1;
              g0 = number_group r2
          in if g0 = [] then None
             else
               let g = g0 @ decimals (drop (length g0) r2);
                   r3 = dropWhile is_space (drop (length g) r2);
                   r4 = (case first_of [''per'', ''/''] r3 of Some r \<Rightarrow> r | None \<Rightarrow> r3);
                   r5 = (case first_of [''month'', ''year'', ''annum'', ''pm'', ''pa''] r4 of
                           Some r \<Rightarrow> r | None \<Rightarrow> r4)
               in Some (g, length s - length r5))"

text \<open>
  \<^verbatim>\<open>finditer\<close>: the matches from left to right, each as (start, end, group 1). The
  search goes on where the last match ended: \<open>skip\<close> counts the characters of that match
  still to pass. \<^verbatim>\<open>findall\<close> is the list of the groups.
\<close>

fun scan :: "(string \<Rightarrow> (string \<times> nat) option) \<Rightarrow> nat \<Rightarrow> nat \<Rightarrow> string \<Rightarrow> (nat \<times> nat \<times> string) list" where
  "scan m skip i [] = []"
| "scan m skip i (c # cs) =
     (if skip > 0 then scan m (skip - 1) (Suc i) cs
      else case m (c # cs) of
             None \<Rightarrow> scan m 0 (Suc i) cs
           | Some (g, len) \<Rightarrow> (i, i + len, g) # scan m (len - 1) (Suc i) cs)"

definition finditer :: "(string \<Rightarrow> (string \<times> nat) option) \<Rightarrow> string \<Rightarrow> (nat \<times> nat \<times> string) list" where
  "finditer m text = scan m 0 0 text"

definition findall :: "(string \<Rightarrow> (string \<times> nat) option) \<Rightarrow> string \<Rightarrow> string list" where
  "findall m text = map (\<lambda>(start, end, g). g) (finditer m text)"

text \<open>
  \<^verbatim>\<open>int(s)\<close> on what the groups can hold: a run of digits is its value, anything with
  another character in it (the decimal point of a salary group) raises \<open>ValueError\<close>.
\<close>

definition py_int :: "string \<Rightarrow> py_error + int" where
  "py_int s = (if s \<noteq> [] \<and> list_all is_digit s then Inr (int_of_digits s) else Inl ValueError)"

definition remove_commas :: "string \<Rightarrow> string" where
  "remove_commas s = filter (\<lambda>c. c \<noteq> CHR '','') s"

text \<open>
  \<open>_extract_salary\<close> (lines 138 to 164). When nothing matches, the keys amount and
  currency are present with the value \<^verbatim>\<open>None\<close> and the key period is missing; the
  record does not tell the two apart, and no reader depends on the difference.
\<close>

definition extraction_extract_salary :: "string \<Rightarrow> py_error + salary" where
  "extraction_extract_salary text =
     (case findall salary_match text of
        [] \<Rightarrow> Inr \<lparr>sal_mentioned = Some False, sal_amount = None, sal_currency = None,
                 sal_period = None\<rparr>
      | amount_str # others \<Rightarrow>
          bind_err (py_int (remove_commas amount_str)) (\<lambda>amount.
            let currency = (if in_str ''$'' text \<or> in_str ''USD'' text then ''USD'' else ''INR'');
                period = (if list_ex (\<lambda>word. in_str word (lower text)) [''year'', ''annum'', ''pa'']
                          then ''year'' else ''month'')
            in Inr \<lparr>sal_mentioned = Some True, sal_amount = Some amount,
                    sal_currency = Some currency, sal_period = Some period\<rparr>))"

text \<open>\<open>_classify_fee\<close> (lines 184 to 197) and \<open>_extract_fees\<close> (lines 166 to 182).\<close>

definition classify_fee :: "string \<Rightarrow> string" where
  "classify_fee context =
     (let context_lower = lower context in
      if in_str ''training'' context_lower then ''training_fee''
      else if in_str ''registration'' context_lower then ''registration_fee''
      else if in_str ''deposit'' context_lower then ''deposit''
      else if in_str ''refund'' context_lower then ''refundable_deposit''
      else ''other_fee'')"

definition py_strip :: "string \<Rightarrow> string" where
  "py_strip s = rev (dropWhile is_space (rev (dropWhile is_space s)))"

text \<open>\<^verbatim>\<open>text[a:b]\<close> for \<open>0 \<le> a\<close> and \<open>b \<le> len(text)\<close>.\<close>

definition py_slice :: "nat \<Rightarrow> nat \<Rightarrow> string \<Rightarrow> string" where
  "py_slice a b s = take (b - a) (drop a s)"

fun collect :: "('a \<Rightarrow> py_error + 'b) \<Rightarrow> 'a list \<Rightarrow> py_error + 'b list" where
  "collect f [] = Inr []"
| "collect f (x # xs) = bind_err (f x) (\<lambda>y. bind_err (collect f xs) (\<lambda>ys. Inr (y # ys)))"

definition extract_fees :: "string \<Rightarrow> py_error + fee list" where
  "extract_fees text =
     collect (\<lambda>(start, end, amount_str).
        let fee_context = py_slice (start - 30) (min (length text) (end + 30)) text in
        bind_err (py_int (remove_commas amount_str)) (\<lambda>amount.
          Inr \<lparr>fee_amount = amount, fee_context = py_strip fee_context,
               fee_type = classify_fee fee_context\<rparr>))
       (finditer fee_match text)"

text \<open>\<open>_detect_red_flags\<close> (lines 216 to 225) with the list of lines 29 to 37.\<close>

definition RED_FLAGS :: "string list" where
  "RED_FLAGS =
     [''training fee'', ''registration fee'', ''refundable deposit'', ''security deposit'',
      ''laptop fee'', ''equipment fee'', ''processing fee'', ''onboarding fee'',
      ''wire transfer'', ''western union'', ''cash app'', ''crypto payment'', ''bitcoin'',
      ''no interview'', ''immediate hiring'', ''urgent hiring'', ''quick earnings'',
      ''work from home guaranteed'', ''no experience needed'', ''earn from home'',
      ''whatsapp job'', ''telegram job'', ''kindly'', ''dear candidate'',
      ''congratulations you are selected'', ''limited slots'', ''act fast'']"

definition detect_red_flags :: "string \<Rightarrow> string list" where
  "detect_red_flags text = (let text_lower = lower text in filter (\<lambda>flag. in_str flag text_lower) RED_FLAGS)"

text \<open>\<open>_detect_behaviors\<close> (lines 227 to 254): six independent checks, in source order.\<close>

definition detect_behaviors :: "string \<Rightarrow> string list" where
  "detect_behaviors text =
     (let text_lower = lower text;
          detected = [];
          detected = (if \<not> in_str ''interview'' text_lower
                      then detected @ [''no interview mentioned''] else detected);
          detected = (if list_ex (\<lambda>word. in_str word text_lower)
                           [''fee'', ''deposit'', ''payment'', ''charge'']
                      then detected @ [''upfront payment required''] else detected);
          detected = (if count_list text (CHR ''!'') > 3 \<or> count_list text (CHR ''?'') > 3
                      then detected @ [''excessive punctuation''] else detected);
          detected = (if in_str ''kindly'' text_lower \<or> in_str ''dear candidate'' text_lower
                      then detected @ [''unprofessional language''] else detected);
          detected = (if list_ex (\<lambda>word. in_str word text_lower)
                           [''urgent'', ''immediate'', ''limited'', ''act fast'', ''hurry'']
                      then detected @ [''pressure to act fast''] else detected);
          detected = (if length text < 100
                      then detected @ [''vague job description''] else detected)
      in detected)"

section \<open>Example inputs\<close>

text \<open>Concrete inputs on which the properties below are evaluated.\<close>

definition demo_payload :: decision_payload where
  "demo_payload =
     \<lparr>pl_extraction = Some \<lparr>company_name = Some ''Acme'', ex_salary = None,
          ex_fees = Some [\<lparr>fee_amount = 500, fee_context = ''deposit of 500'', fee_type = ''deposit''\<rparr>],
          ex_red_flags = Some [''kindly'', ''act fast''],
          ex_behaviors = Some [''pressure to act fast'']\<rparr>,
      pl_research = Some (empty_research\<lparr>trust_assessment := Some ''low_trust''\<rparr>),
      pl_pattern_out = Some \<lparr>scam_matches = Some [(''suspicious_keywords'', [''kindly''])],
          positive_matches = Some []\<rparr>,
      pl_salary_out = Some (empty_salary_out\<lparr>combined_risk := Some ''MEDIUM''\<rparr>)\<rparr>"

definition demo_research :: research where
  "demo_research =
     \<lparr>rs_company_verification = Some \<lparr>cv_found = Some True, online_presence = Some ''strong'',
          cv_sources = Some [''https://www.acme.com'']\<rparr>,
      rs_email_verification = Some \<lparr>domain_matches = Some [''hr@acme.com''],
          suspicious_domains = Some [], personal_emails = Some [],
          professional_emails = Some [''hr@acme.com'']\<rparr>,
      rs_salary_verification = Some \<lparr>realistic = Some ''unknown'', monthly_equivalent = None,
          assessment = Some ''No salary information provided''\<rparr>,
      rs_scam_reports = Some \<lparr>sr_found = Some False\<rparr>,
      rs_domain_analysis = Some \<lparr>da_trusted = Some [], da_suspicious = Some []\<rparr>,
      trust_assessment = Some ''pending''\<rparr>"

definition whatsapp_text :: string where
  "whatsapp_text = ''Stipend 15000 per month. Message us on WhatsApp.''"

definition demo_fs :: kb_fs where
  "demo_fs =
     \<lparr>scam_file = Document (JDict [(''suspicious_keywords'', JList [JStr ''kindly''])]),
      positive_file = Document (JDict [(''verified_domains'', JList [JStr ''@google.com''])])\<rparr>"





definition behaviors_only_payload :: propose_payload where
  "behaviors_only_payload =
     \<lparr>pp_extraction = Some \<lparr>company_name = Some ''Acme'', ex_salary = None, ex_fees = Some [],
          ex_red_flags = Some [], ex_behaviors = Some [''vague job description'']\<rparr>,
      pp_research = Some \<lparr>
          rs_company_verification = Some \<lparr>cv_found = Some True, online_presence = Some ''strong'',
             cv_sources = Some [''https://acme.example/a'', ''https://acme.example/b'',
                                ''https://acme.example/c'', ''https://acme.example/d'',
                                ''https://acme.example/e'']\<rparr>,
          rs_email_verification = Some \<lparr>domain_matches = Some [], suspicious_domains = Some [],
             personal_emails = Some [], professional_emails = Some []\<rparr>,
          rs_salary_verification = Some \<lparr>realistic = Some ''unknown'', monthly_equivalent = None,
             assessment = Some ''No salary information provided''\<rparr>,
          rs_scam_reports = Some \<lparr>sr_found = Some True\<rparr>,
          rs_domain_analysis = Some \<lparr>da_trusted = Some [], da_suspicious = Some []\<rparr>,
          trust_assessment = Some ''high_risk''\<rparr>\<rparr>"

definition decimal_text :: string where
  "decimal_text = ''Stipend: $500.50 per month''"

definition deposit_text :: string where
  "deposit_text = ''Pay a refundable deposit of $500 for training. WhatsApp +1234567890 for urgent hiring, no interview needed.''"

section \<open>Properties of the Decision Aggregator\<close>

lemma risk_score_of_eq:
  "risk_score_of payload =
     2 * int (length (in_red_flags payload))
     + (if in_fees_mentioned payload then 5 else 0)
     + int (length (in_behaviors payload))
     + (if in_trust_level payload = ''high_risk'' then 10
        else if in_trust_level payload = ''low_trust'' then 5
        else if in_trust_level payload = ''high_trust'' then - 5 else 0)
     + (if in_scam_reports payload then 8 else 0)
     + (if truthy (personal_emails (in_email_verification payload)) then 3 else 0)
     + (if in_has_scam_patterns payload then 5 else 0)
     - (if in_has_positive_patterns payload then 3 else 0)
     + (if in_salary_risk payload = ''HIGH'' then 4
        else if in_salary_risk payload = ''MEDIUM'' then 2 else 0)"
  unfolding risk_score_of_def Let_def by simp

lemma category_of_iff:
  "(category_of r = ''Contains Warning Signs'') = (r \<ge> 10)"
  "(category_of r = ''Looks Safe'') = (r \<le> 2)"
  "(category_of r = ''Needs Verification'') = (2 < r \<and> r < 10)"
  by (simp_all add: category_of_def)

lemma decision_handle_eq:
  "decision_handle payload =
     (''ok'', \<lparr>dd_result = category_of (risk_score_of payload), dd_red_flags = in_red_flags payload,
            dd_trust_level = in_trust_level payload, internal_risk_score = risk_score_of payload\<rparr>)"
  by (simp add: decision_handle_def Let_def)

lemma fees_mentioned_iff:
  "in_fees_mentioned payload = (dict_get (ex_fees (in_extraction payload)) [] \<noteq> [])"
  by (simp add: in_fees_mentioned_def)

text \<open>
  Claim C1. For every payload the risk score returned by the Decision Aggregator is
  twice the number of red flags, plus 5 when the fee list is non-empty, plus the number of
  behaviors, plus 10, 5 or minus 5 for the trust levels high\_risk, low\_trust and
  high\_trust, plus 8 when scam reports were found, plus 3 when personal e-mails were
  found, plus 5 when a scam pattern matched, minus 3 when a positive pattern matched, plus
  4 or 2 for the salary risks HIGH and MEDIUM; and the category is "Contains Warning Signs"
  exactly when the score is at least 10, "Looks Safe" exactly when it is at most 2, and
  "Needs Verification" exactly in between.
\<close>

theorem decision_risk_score_formula:
  "(let risk = internal_risk_score (snd (decision_handle payload));
        category = dd_result (snd (decision_handle payload));
        trust = in_trust_level payload;
        salary_risk = in_salary_risk payload
    in risk = 2 * int (length (in_red_flags payload))
            + (if dict_get (ex_fees (in_extraction payload)) [] \<noteq> [] then 5 else 0)
            + int (length (in_behaviors payload))
            + (if trust = ''high_risk'' then 10 else if trust = ''low_trust'' then 5
               else if trust = ''high_trust'' then - 5 else 0)
            + (if in_scam_reports payload then 8 else 0)
            + (if truthy (personal_emails (in_email_verification payload)) then 3 else 0)
            + (if truthy (scam_matches (in_pattern_out payload)) then 5 else 0)
            - (if truthy (positive_matches (in_pattern_out payload)) then 3 else 0)
            + (if salary_risk = ''HIGH'' then 4 else if salary_risk = ''MEDIUM'' then 2 else 0)
       \<and> (category = ''Contains Warning Signs'') = (risk \<ge> 10)
       \<and> (category = ''Looks Safe'') = (risk \<le> 2)
       \<and> (category = ''Needs Verification'') = (2 < risk \<and> risk < 10))"
  unfolding Let_def decision_handle_eq snd_conv decision_data.simps category_of_iff
  unfolding risk_score_of_eq fees_mentioned_iff in_has_scam_patterns_def in_has_positive_patterns_def
  by simp

text \<open>
  Claim C6. When every upstream signal is absent or empty (no red flags, no fees, no
  behaviors, a trust level that is none of high\_risk, low\_trust, high\_trust, no scam
  report, no personal e-mail, no pattern match, a salary risk that is neither HIGH nor
  MEDIUM), the Decision Aggregator still answers: status "ok", risk score 0, category
  "Looks Safe". The witness is the payload with every key missing.
\<close>

theorem decision_degenerate_case:
  assumes "in_red_flags payload = []"
      and "dict_get (ex_fees (in_extraction payload)) [] = []"
      and "in_behaviors payload = []"
      and "in_trust_level payload \<noteq> ''high_risk''"
      and "in_trust_level payload \<noteq> ''low_trust''"
      and "in_trust_level payload \<noteq> ''high_trust''"
      and "\<not> in_scam_reports payload"
      and "\<not> truthy (personal_emails (in_email_verification payload))"
      and "\<not> truthy (scam_matches (in_pattern_out payload))"
      and "\<not> truthy (positive_matches (in_pattern_out payload))"
      and "in_salary_risk payload \<noteq> ''HIGH''"
      and "in_salary_risk payload \<noteq> ''MEDIUM''"
  shows "decision_handle payload =
           (''ok'', \<lparr>dd_result = ''Looks Safe'', dd_red_flags = [],
                    dd_trust_level = in_trust_level payload, internal_risk_score = 0\<rparr>)"
proof -
  have "risk_score_of payload = 0"
    unfolding risk_score_of_eq fees_mentioned_iff in_has_scam_patterns_def
      in_has_positive_patterns_def
    using assms by simp
  moreover have "category_of 0 = ''Looks Safe''"
    by (simp add: category_of_def)
  ultimately show ?thesis
    unfolding decision_handle_eq using assms(1) by simp
qed

lemma empty_payload_signals:
  "in_red_flags empty_payload = []"
  "dict_get (ex_fees (in_extraction empty_payload)) [] = []"
  "in_behaviors empty_payload = []"
  "in_trust_level empty_payload = ''unknown''"
  "\<not> in_scam_reports empty_payload"
  "\<not> truthy (personal_emails (in_email_verification empty_payload))"
  "\<not> truthy (scam_matches (in_pattern_out empty_payload))"
  "\<not> truthy (positive_matches (in_pattern_out empty_payload))"
  "in_salary_risk empty_payload = ''LOW''"
  by (simp_all add: in_extraction_def in_research_def in_pattern_out_def in_salary_out_def
      in_red_flags_def in_behaviors_def in_trust_level_def in_scam_reports_def
      in_email_verification_def in_salary_risk_def
      empty_payload_def empty_extraction_def empty_research_def
      empty_pattern_out_def empty_salary_out_def empty_scam_reports_def
      empty_email_verification_def dict_get_def truthy_def)

theorem decision_degenerate_case_witness:
  "decision_handle empty_payload =
     (''ok'', \<lparr>dd_result = ''Looks Safe'', dd_red_flags = [],
              dd_trust_level = ''unknown'', internal_risk_score = 0\<rparr>)"
  using decision_degenerate_case [of empty_payload]
  by (simp add: empty_payload_signals)

lemma demo_payload_signals:
  "in_red_flags demo_payload = [''kindly'', ''act fast'']"
  "dict_get (ex_fees (in_extraction demo_payload)) [] \<noteq> []"
  "in_behaviors demo_payload = [''pressure to act fast'']"
  "in_trust_level demo_payload = ''low_trust''"
  "\<not> in_scam_reports demo_payload"
  "\<not> truthy (personal_emails (in_email_verification demo_payload))"
  "truthy (scam_matches (in_pattern_out demo_payload))"
  "\<not> truthy (positive_matches (in_pattern_out demo_payload))"
  "in_salary_risk demo_payload = ''MEDIUM''"
  by (simp_all add: in_extraction_def in_research_def in_pattern_out_def in_salary_out_def
      in_red_flags_def in_behaviors_def in_trust_level_def in_scam_reports_def
      in_email_verification_def in_salary_risk_def
      demo_payload_def empty_research_def empty_salary_out_def empty_scam_reports_def
      empty_email_verification_def dict_get_def truthy_def)

theorem decision_risk_score_formula_witness:
  "internal_risk_score (snd (decision_handle demo_payload)) = 22
   \<and> dd_result (snd (decision_handle demo_payload)) = ''Contains Warning Signs''"
  using decision_risk_score_formula [of demo_payload]
  by (simp add: Let_def demo_payload_signals)

section \<open>Properties of the Reputation Resolver\<close>

lemma trust_score_present:
  assumes "rs_company_verification r = Some cv"
      and "rs_email_verification r = Some ev"
      and "professional_emails ev = Some prof"
      and "personal_emails ev = Some pers"
      and "domain_matches ev = Some dm"
      and "rs_scam_reports r = Some sr"
      and "sr_found sr = Some found"
      and "rs_domain_analysis r = Some da"
      and "da_trusted da = Some tr"
      and "da_suspicious da = Some su"
      and "rs_salary_verification r = Some sv"
  shows "trust_score r = Inr (
           (if dict_get (online_presence cv) ''none'' = ''strong'' then 3
            else if dict_get (online_presence cv) ''none'' = ''moderate'' then 1
            else if dict_get (online_presence cv) ''none'' = ''weak'' then - 1 else 0)
         + (if prof \<noteq> [] then 2 else 0)
         - (if pers \<noteq> [] then 1 else 0)
         + (if dm \<noteq> [] then 2 else 0)
         - (if found then 5 else 0)
         + (if tr \<noteq> [] then 3 else 0)
         - (if su \<noteq> [] then 2 else 0)
         + (if dict_get (realistic sv) ''unknown'' = ''realistic'' then 1
            else if dict_get (realistic sv) ''unknown'' = ''suspiciously_low''
                  \<or> dict_get (realistic sv) ''unknown'' = ''suspiciously_high'' then - 2 else 0))"
  unfolding trust_score_def using assms
  by (simp add: bind_err_def dict_index_def Let_def)

lemma trust_level_of_iff:
  "(trust_level_of s = ''high_trust'') = (s \<ge> 5)"
  "(trust_level_of s = ''moderate_trust'') = (2 \<le> s \<and> s < 5)"
  "(trust_level_of s = ''low_trust'') = (0 \<le> s \<and> s < 2)"
  "(trust_level_of s = ''high_risk'') = (s < 0)"
  by (simp_all add: trust_level_of_def)

lemma assess_trust_eq:
  "trust_score r = Inr s \<Longrightarrow> assess_trust r = Inr (trust_level_of s)"
  by (simp add: assess_trust_def bind_err_def)

text \<open>
  Claim C2. For every research result in which the keys read by \<open>_assess_trust\<close> are
  present, the trust score is the sum of the fixed weights: 3, 1 or minus 1 for a strong,
  moderate or weak presence; plus 2 for professional e-mails; minus 1 for personal
  e-mails; plus 2 for domain matches; minus 5 for scam reports; plus 3 for a trusted
  domain; minus 2 for a suspicious domain; plus 1 for a realistic salary and minus 2 for
  a suspiciously low or high one. The level is high\_trust exactly from 5, moderate\_trust
  exactly from 2 to below 5, low\_trust exactly from 0 to below 2, and high\_risk below 0.
  In the scenario where a strong presence, professional e-mails and domain matches are the
  only signals (no scam report, nothing else found), the score is 7 and the level
  high\_trust.
\<close>

theorem assess_trust_weights:
  assumes "rs_company_verification r = Some cv"
      and "rs_email_verification r = Some ev"
      and "professional_emails ev = Some prof"
      and "personal_emails ev = Some pers"
      and "domain_matches ev = Some dm"
      and "rs_scam_reports r = Some sr"
      and "sr_found sr = Some found"
      and "rs_domain_analysis r = Some da"
      and "da_trusted da = Some tr"
      and "da_suspicious da = Some su"
      and "rs_salary_verification r = Some sv"
  shows "(let presence = dict_get (online_presence cv) ''none'';
              salary_check = dict_get (realistic sv) ''unknown'';
              score = (if presence = ''strong'' then 3 else if presence = ''moderate'' then 1
                       else if presence = ''weak'' then - 1 else 0)
                    + (if prof \<noteq> [] then 2 else 0)
                    - (if pers \<noteq> [] then 1 else 0)
                    + (if dm \<noteq> [] then 2 else 0)
                    - (if found then 5 else 0)
                    + (if tr \<noteq> [] then 3 else 0)
                    - (if su \<noteq> [] then 2 else 0)
                    + (if salary_check = ''realistic'' then 1
                       else if salary_check = ''suspiciously_low''
                             \<or> salary_check = ''suspiciously_high'' then - 2 else 0)
          in trust_score r = Inr score
           \<and> (assess_trust r = Inr ''high_trust'') = (score \<ge> 5)
           \<and> (assess_trust r = Inr ''moderate_trust'') = (2 \<le> score \<and> score < 5)
           \<and> (assess_trust r = Inr ''low_trust'') = (0 \<le> score \<and> score < 2)
           \<and> (assess_trust r = Inr ''high_risk'') = (score < 0)
           \<and> (presence = ''strong'' \<and> prof \<noteq> [] \<and> dm \<noteq> [] \<and> \<not> found
                \<and> pers = [] \<and> tr = [] \<and> su = []
                \<and> salary_check \<noteq> ''realistic'' \<and> salary_check \<noteq> ''suspiciously_low''
                \<and> salary_check \<noteq> ''suspiciously_high''
              \<longrightarrow> score = 7 \<and> assess_trust r = Inr ''high_trust''))"
proof -
  note sc = trust_score_present [OF assms]
  note at = assess_trust_eq [OF sc]
  show ?thesis
    unfolding Let_def at sc sum.inject trust_level_of_iff
    by simp
qed

theorem assess_trust_weights_witness:
  "trust_score demo_research = Inr 7 \<and> assess_trust demo_research = Inr ''high_trust''"
  using assess_trust_weights [of demo_research
      "\<lparr>cv_found = Some True, online_presence = Some ''strong'', cv_sources = Some [''https://www.acme.com'']\<rparr>"
      "\<lparr>domain_matches = Some [''hr@acme.com''], suspicious_domains = Some [],
        personal_emails = Some [], professional_emails = Some [''hr@acme.com'']\<rparr>"
      "[''hr@acme.com'']" "[]" "[''hr@acme.com'']" "\<lparr>sr_found = Some False\<rparr>" False
      "\<lparr>da_trusted = Some [], da_suspicious = Some []\<rparr>" "[]" "[]"
      "\<lparr>realistic = Some ''unknown'', monthly_equivalent = None,
        assessment = Some ''No salary information provided''\<rparr>"]
  by (simp add: demo_research_def dict_get_def Let_def)



section \<open>Properties of the Salary Plausibility Checker\<close>

lemma whatsapp_salary: "extract_salary whatsapp_text = Some 15000"
  unfolding whatsapp_text_def by code_simp

lemma whatsapp_interview: "ia_risk (analyze_interview whatsapp_text) = ''MEDIUM''"
  unfolding whatsapp_text_def by code_simp

lemma assess_salary_iff:
  "(sa_risk (assess_salary v) = ''HIGH'') = (v < 300 \<or> v > 200000)"
  "(sa_risk (assess_salary v) = ''MEDIUM'') = (300 \<le> v \<and> v < 1000)"
  "(sa_risk (assess_salary v) = ''SAFE'') = (1000 \<le> v \<and> v \<le> 200000)"
  by (auto simp add: assess_salary_def)

lemma salary_handle_combined:
  "combined_risk (snd (salary_handle text)) =
     Some (if ia_risk (analyze_interview text) = ''HIGH''
              \<or> map_option (\<lambda>v. sa_risk (assess_salary v)) (extract_salary text) = Some ''HIGH''
           then ''HIGH''
           else if ia_risk (analyze_interview text) = ''MEDIUM''
              \<or> map_option (\<lambda>v. sa_risk (assess_salary v)) (extract_salary text) = Some ''MEDIUM''
           then ''MEDIUM'' else ''SAFE'')"
  by (cases "extract_salary text") (simp_all add: salary_handle_def Let_def)

lemma risk_score_salary_update:
  "risk_score_of (payload\<lparr>pl_salary_out := Some so\<rparr>) =
     risk_score_of (payload\<lparr>pl_salary_out := None\<rparr>)
     + (if dict_get (combined_risk so) ''LOW'' = ''HIGH'' then 4
        else if dict_get (combined_risk so) ''LOW'' = ''MEDIUM'' then 2 else 0)"
  unfolding risk_score_of_eq
  by (simp add: in_extraction_def in_research_def in_pattern_out_def in_salary_out_def
      in_red_flags_def in_fees_mentioned_def in_behaviors_def in_trust_level_def
      in_scam_reports_def in_email_verification_def in_has_scam_patterns_def
      in_has_positive_patterns_def in_salary_risk_def dict_get_def empty_salary_out_def)

lemma in_salary_risk_update:
  "in_salary_risk (payload\<lparr>pl_salary_out := Some so\<rparr>) = dict_get (combined_risk so) ''LOW''"
  by (simp add: in_salary_risk_def in_salary_out_def dict_get_def)

text \<open>
  Claim C8, as stated, fails: the salary risk the Decision Aggregator reads is the
  salary agent's combined risk, not the classification of the amount alone. On the text
  below the amount 15000 is classified SAFE, the interview analysis finds "whatsapp"
  (MEDIUM), and the aggregator adds 2.
\<close>

theorem salary_risk_is_combined_counterexample:
  "extract_salary whatsapp_text = Some 15000
   \<and> sa_risk (assess_salary 15000) = ''SAFE''
   \<and> in_salary_risk (empty_payload\<lparr>pl_salary_out := Some (snd (salary_handle whatsapp_text))\<rparr>)
       = ''MEDIUM''
   \<and> risk_score_of (empty_payload\<lparr>pl_salary_out := Some (snd (salary_handle whatsapp_text))\<rparr>)
       = risk_score_of (empty_payload\<lparr>pl_salary_out := None\<rparr>) + 2"
  unfolding risk_score_salary_update in_salary_risk_update salary_handle_combined
    whatsapp_salary whatsapp_interview
  by (simp add: dict_get_def assess_salary_def)

text \<open>
  Claim C8, amended. The Salary Checker classifies an amount as HIGH exactly when it is
  below 300 or above 200000, MEDIUM exactly from 300 to below 1000, and SAFE otherwise.
  The salary risk the Decision Aggregator uses, adding 4 for HIGH and 2 for MEDIUM, is the
  agent's combined risk: HIGH when the interview analysis or the amount's classification is
  HIGH, else MEDIUM when either is MEDIUM, else SAFE. It is the amount's classification
  whenever an amount was parsed and the interview analysis is SAFE.
\<close>

theorem salary_risk_is_combined:
  "(sa_risk (assess_salary v) = ''HIGH'') = (v < 300 \<or> v > 200000)
   \<and> (sa_risk (assess_salary v) = ''MEDIUM'') = (300 \<le> v \<and> v < 1000)
   \<and> (sa_risk (assess_salary v) = ''SAFE'') = (1000 \<le> v \<and> v \<le> 200000)
   \<and> (let so = snd (salary_handle text);
            interview = ia_risk (analyze_interview text);
            classification = map_option (\<lambda>a. sa_risk (assess_salary a)) (extract_salary text);
            combined =
              (if interview = ''HIGH'' \<or> classification = Some ''HIGH'' then ''HIGH''
               else if interview = ''MEDIUM'' \<or> classification = Some ''MEDIUM'' then ''MEDIUM''
               else ''SAFE'')
        in in_salary_risk (payload\<lparr>pl_salary_out := Some so\<rparr>) = combined
         \<and> risk_score_of (payload\<lparr>pl_salary_out := Some so\<rparr>) =
             risk_score_of (payload\<lparr>pl_salary_out := None\<rparr>)
             + (if combined = ''HIGH'' then 4 else if combined = ''MEDIUM'' then 2 else 0)
         \<and> (interview = ''SAFE'' \<and> extract_salary text = Some v
              \<longrightarrow> combined = sa_risk (assess_salary v)))"
proof -
  have three: "sa_risk (assess_salary a) = ''HIGH'' \<or> sa_risk (assess_salary a) = ''MEDIUM''
      \<or> sa_risk (assess_salary a) = ''SAFE''" for a
    by (simp add: assess_salary_def)
  have same: "extract_salary text = Some v \<Longrightarrow> ia_risk (analyze_interview text) = ''SAFE'' \<Longrightarrow>
      (if ia_risk (analyze_interview text) = ''HIGH''
          \<or> map_option (\<lambda>a. sa_risk (assess_salary a)) (extract_salary text) = Some ''HIGH''
       then ''HIGH''
       else if ia_risk (analyze_interview text) = ''MEDIUM''
          \<or> map_option (\<lambda>a. sa_risk (assess_salary a)) (extract_salary text) = Some ''MEDIUM''
       then ''MEDIUM'' else ''SAFE'') = sa_risk (assess_salary v)"
    using three [of v] by auto
  have rest: "(let so = snd (salary_handle text);
            interview = ia_risk (analyze_interview text);
            classification = map_option (\<lambda>a. sa_risk (assess_salary a)) (extract_salary text);
            combined =
              (if interview = ''HIGH'' \<or> classification = Some ''HIGH'' then ''HIGH''
               else if interview = ''MEDIUM'' \<or> classification = Some ''MEDIUM'' then ''MEDIUM''
               else ''SAFE'')
        in in_salary_risk (payload\<lparr>pl_salary_out := Some so\<rparr>) = combined
         \<and> risk_score_of (payload\<lparr>pl_salary_out := Some so\<rparr>) =
             risk_score_of (payload\<lparr>pl_salary_out := None\<rparr>)
             + (if combined = ''HIGH'' then 4 else if combined = ''MEDIUM'' then 2 else 0)
         \<and> (interview = ''SAFE'' \<and> extract_salary text = Some v
              \<longrightarrow> combined = sa_risk (assess_salary v)))"
    unfolding Let_def risk_score_salary_update in_salary_risk_update salary_handle_combined
    using same by (simp add: dict_get_def)
  show ?thesis
    using rest assess_salary_iff [of v] by blast
qed

theorem salary_risk_is_combined_witness:
  "in_salary_risk (empty_payload\<lparr>pl_salary_out :=
       Some (snd (salary_handle ''Salary 50000 per month after a technical round.''))\<rparr>) = ''SAFE''
   \<and> sa_risk (assess_salary 50000) = ''SAFE''"
proof -
  have a: "extract_salary ''Salary 50000 per month after a technical round.'' = Some 50000"
    by code_simp
  have b: "ia_risk (analyze_interview ''Salary 50000 per month after a technical round.'') = ''SAFE''"
    by code_simp
  show ?thesis
    using salary_risk_is_combined [of 50000 "''Salary 50000 per month after a technical round.''"
        empty_payload]
    unfolding Let_def a b by simp
qed

section \<open>Properties of the Knowledge Base Store and the Knowledge Learner\<close>






































section \<open>Properties of the proposal gate\<close>

lemma calculate_confidence_range:
  "0 \<le> calculate_confidence proposals research \<and> calculate_confidence proposals research \<le> 1"
  by (simp add: calculate_confidence_def Let_def min_def)

lemma calculate_confidence_ignores_proposals:
  "calculate_confidence P research = calculate_confidence Q research"
  unfolding calculate_confidence_def by (rule refl)

lemma propose_update_gate:
  assumes "propose_update fs payload = Inr P"
  shows "confidence P =
             Some (calculate_confidence P (dict_get (pp_research payload) empty_research))
       \<and> should_apply P =
           Some (calculate_confidence P (dict_get (pp_research payload) empty_research) \<ge> 7 / 10
                 \<and> (dict_get (new_scam_keywords P) [] \<noteq> []
                      \<or> dict_get (new_scam_domains P) [] \<noteq> []
                      \<or> dict_get (new_safe_keywords P) [] \<noteq> []
                      \<or> dict_get (new_safe_domains P) [] \<noteq> []))"
proof -
  define r where "r = dict_get (pp_research payload) empty_research"
  define e where "e = dict_get (pp_extraction payload) empty_extraction"
  obtain P1 where c: "proposal_candidates fs e r = Inr P1"
    using assms unfolding e_def r_def
    by (cases "proposal_candidates fs (dict_get (pp_extraction payload) empty_extraction)
          (dict_get (pp_research payload) empty_research)")
       (simp_all add: propose_update_def Let_def bind_err_def)
  define cc where "cc = calculate_confidence P1 r"
  have P: "P = P1\<lparr>confidence := Some cc,
                   should_apply := Some (cc \<ge> CONFIDENCE_THRESHOLD
                      \<and> has_sufficient_evidence (P1\<lparr>confidence := Some cc\<rparr>))\<rparr>"
    using assms c unfolding e_def r_def cc_def
    by (simp add: propose_update_def Let_def bind_err_def)
  have cc: "calculate_confidence P r = cc"
    unfolding cc_def by (rule calculate_confidence_ignores_proposals)
  have 1: "confidence P = Some cc"
    by (simp add: P)
  have 2: "should_apply P = Some (cc \<ge> 7 / 10
      \<and> (dict_get (new_scam_keywords P1) [] \<noteq> [] \<or> dict_get (new_scam_domains P1) [] \<noteq> []
         \<or> dict_get (new_safe_keywords P1) [] \<noteq> [] \<or> dict_get (new_safe_domains P1) [] \<noteq> []))"
    by (simp add: P has_sufficient_evidence_def CONFIDENCE_THRESHOLD_def)
  have 3: "new_scam_keywords P = new_scam_keywords P1" "new_scam_domains P = new_scam_domains P1"
    "new_safe_keywords P = new_safe_keywords P1" "new_safe_domains P = new_safe_domains P1"
    by (simp_all add: P)
  show ?thesis
    unfolding r_def [symmetric] cc 3 using 1 2 by simp
qed

text \<open>
  Claim C4 says that should\_apply is true exactly when the confidence is at least 0.7
  and some candidate list of the proposal is not empty. \<open>_has_sufficient_evidence\<close>
  looks at four of the five candidate lists and leaves out new\_scam\_behaviors: on the
  input below (scam reports found, trust high\_risk, strong presence with five sources, one
  detected behavior and no red flag) the confidence is 1, the behaviors are proposed, and
  should\_apply is false.
\<close>

theorem propose_update_ignores_behaviors:
  "propose_update demo_fs behaviors_only_payload =
     Inr \<lparr>new_scam_keywords = Some [], new_scam_domains = Some [],
          new_scam_behaviors = Some [''vague job description''],
          new_safe_keywords = Some [], new_safe_domains = Some [],
          confidence = Some 1, should_apply = Some False\<rparr>"
  unfolding demo_fs_def behaviors_only_payload_def by code_simp

section \<open>Properties of the Text Extractor\<close>

lemma no_interview_iff:
  "(''no interview mentioned'' \<in> set (detect_behaviors text)) = (\<not> in_str ''interview'' (lower text))"
  unfolding detect_behaviors_def Let_def by simp

lemma deposit_fees:
  "extract_fees deposit_text =
     Inr [\<lparr>fee_amount = 500,
           fee_context = ''Pay a refundable deposit of $500 for training. WhatsApp +12345'',
           fee_type = ''training_fee''\<rparr>]"
  unfolding deposit_text_def by code_simp

lemma deposit_red_flags:
  "detect_red_flags deposit_text = [''refundable deposit'', ''no interview'', ''urgent hiring'']"
  unfolding deposit_text_def by code_simp

lemma deposit_behaviors:
  "detect_behaviors deposit_text = [''upfront payment required'', ''pressure to act fast'']"
  unfolding deposit_text_def by code_simp

lemma deposit_interview: "in_str ''interview'' (lower deposit_text)"
  unfolding deposit_text_def by code_simp

lemma decimal_matches: "findall salary_match decimal_text = [''500.50'']"
  unfolding decimal_text_def by code_simp

lemma decimal_salary: "extraction_extract_salary decimal_text = Inl ValueError"
  unfolding decimal_text_def by code_simp

lemma extraction_extract_salary_first:
  assumes "findall salary_match text = amount_str # others"
      and "py_int (remove_commas amount_str) = Inr amount"
  shows "extraction_extract_salary text =
     Inr \<lparr>sal_mentioned = Some True, sal_amount = Some amount,
          sal_currency = Some (if in_str ''$'' text \<or> in_str ''USD'' text then ''USD'' else ''INR''),
          sal_period = Some (if in_str ''year'' (lower text) \<or> in_str ''annum'' (lower text)
                               \<or> in_str ''pa'' (lower text) then ''year'' else ''month'')\<rparr>"
  using assms by (simp add: extraction_extract_salary_def bind_err_def Let_def)

text \<open>
  Claim C9 says that for every cleaned text the salary result is built from the first
  currency-amount match. The pattern admits two decimals in the amount, and
  \<^verbatim>\<open>int()\<close> does not: on the text below the first match is "500.50" and
  \<open>_extract_salary\<close> raises \<open>ValueError\<close> instead of returning a result. (For a first
  match without decimals the result is as the claim says: lemma
  \<open>extraction_extract_salary_first\<close>.)
\<close>

theorem extract_salary_decimal_amount:
  "findall salary_match decimal_text = [''500.50'']
   \<and> extraction_extract_salary decimal_text = Inl ValueError"
  using decimal_matches decimal_salary by (intro conjI)

text \<open>
  Claim C10. On the text "Pay a refundable deposit of $500 for training. WhatsApp
  +1234567890 for urgent hiring, no interview needed." the fee list is not empty and its
  first (and only) entry is classified as a training fee; the red flags contain
  "refundable deposit"; the behaviors do not contain "no interview mentioned", because
  the lower-cased text contains "interview": for every text that behavior is reported
  exactly when "interview" does not occur in it.
\<close>

theorem deposit_scenario:
  "extract_fees deposit_text =
     Inr [\<lparr>fee_amount = 500,
           fee_context = ''Pay a refundable deposit of $500 for training. WhatsApp +12345'',
           fee_type = ''training_fee''\<rparr>]
   \<and> ''refundable deposit'' \<in> set (detect_red_flags deposit_text)
   \<and> ''no interview mentioned'' \<notin> set (detect_behaviors deposit_text)
   \<and> in_str ''interview'' (lower deposit_text)
   \<and> (''no interview mentioned'' \<in> set (detect_behaviors text))
       = (\<not> in_str ''interview'' (lower text))"
  unfolding deposit_red_flags deposit_behaviors
  using deposit_fees deposit_interview no_interview_iff [of "text"]
  by simp

end
